theory Spec2Isabelle
  imports Main
begin

section \<open>The Sawtooth client (core/sawtooth/client.py)\<close>

subsection \<open>Python values and exceptions\<close>

text \<open>
  The decoded values that travel between the client and the validator (what
  \<open>json2dict\<close> and \<open>cbor2dict\<close> return, what \<open>dict2cbor\<close> takes): \<open>None\<close>, strings,
  integers, lists, and dictionaries with string keys, kept as association lists.
\<close>

datatype pyval =
    PNone
  | PStr string
  | PInt int
  | PList "pyval list"
  | PDict "(string \<times> pyval) list"

text \<open>
  Every exception the modelled code can raise. The three Sawtooth exceptions carry
  their argument; the built-in ones are raised by the interpreter (\<open>len(None)\<close>,
  \<open>xs[0]\<close> on an empty list, an attribute of \<open>None\<close>, \<open>assert\<close>, a local variable
  that was never bound, \<open>TransactionStatus(code)\<close> for a code that is no member).
\<close>

datatype error =
    ClientException string
  | MessageException string
  | InvalidTransactionError pyval
  | TypeError
  | IndexError
  | KeyError
  | ValueError
  | AttributeError
  | AssertionError
  | UnboundLocalError

subsection \<open>The state synchronization engine: \<open>_ClientState\<close>\<close>

text \<open>
  \<open>_ClientState(client, state_type)\<close> is given the two objects it works with. Of
  \<open>client\<close> it calls three methods, of \<open>state_type\<close> the constructor and, on the
  stores it builds, \<open>clone_store\<close>. Both are parameters here: block ids \<open>'b\<close>,
  deltas \<open>'d\<close>, object sets \<open>'o\<close> and stores \<open>'s\<close> are opaque to \<open>fetch\<close>, which
  only compares block ids. A method of \<open>client\<close> either returns or raises; within one
  refresh its answer depends on its argument only.
\<close>

record ('b, 'd, 'o) state_client =
  get_block_list :: "int \<Rightarrow> error + 'b list"
  get_store_delta_for_block :: "'b \<Rightarrow> error + 'd"
  get_store_objects_through_block :: "'b \<Rightarrow> error + 'o"

text \<open>The dictionary \<open>{'Store': state, 'DeletedKeys': []}\<close> passed as \<open>storeinfo\<close>.\<close>

record 'o storeinfo =
  Store :: 'o
  DeletedKeys :: "string list"

text \<open>
  \<open>construct prevstore storeinfo\<close> is the call \<open>state_type(prevstore=..., storeinfo=...)\<close>
  (\<open>state_type()\<close> leaves both at \<open>None\<close>); \<open>clone_store s None\<close> is \<open>s.clone_store()\<close> and
  \<open>clone_store s (Some delta)\<close> is \<open>s.clone_store(delta)\<close>.
\<close>

record ('s, 'd, 'o) state_type =
  construct :: "'s option \<Rightarrow> 'o storeinfo option \<Rightarrow> 's"
  clone_store :: "'s \<Rightarrow> 'd option \<Rightarrow> 's"

text \<open>
  The fields of a \<open>_ClientState\<close>: \<open>_state\<close> is the synchronized snapshot,
  \<open>_current_state\<close> the speculative one, \<open>_current_block_id\<close> the recorded head.
\<close>

record ('s, 'b) ClientState =
  cs_state :: "'s option"
  cs_current_state :: "'s option"
  cs_current_block_id :: "'b option"

text \<open>The calls \<open>fetch\<close> makes on its client, in the order it makes them.\<close>

datatype 'b call =
    GetBlockList int
  | GetStoreDelta 'b
  | GetStoreObjects 'b

definition ClientState_init ::
  "('b, 'd, 'o) state_client option \<Rightarrow> ('s, 'd, 'o) state_type \<Rightarrow> ('s, 'b) ClientState" where
  "ClientState_init client st =
     (case client of
        None \<Rightarrow>
          (let s = construct st None None
           in \<lparr>cs_state = Some s, cs_current_state = Some (clone_store st s None),
               cs_current_block_id = None\<rparr>)
      | Some _ \<Rightarrow>
          \<lparr>cs_state = None, cs_current_state = None, cs_current_block_id = None\<rparr>)"

text \<open>\<open>xs.index(x)\<close>: the position of the first element equal to \<open>x\<close>.\<close>

fun list_index :: "'a list \<Rightarrow> 'a \<Rightarrow> error + nat" where
  "list_index [] x = Inl ValueError"
| "list_index (y # ys) x =
     (if y = x then Inr 0
      else (case list_index ys x of Inl e \<Rightarrow> Inl e | Inr i \<Rightarrow> Inr (Suc i)))"

text \<open>
  The loop \<open>for fetch_id in reversed(fetch_list)\<close>, run on the reversed list: each
  round asks for one delta and replaces \<open>_state\<close> by its clone with that delta. An
  exception leaves the loop with \<open>_state\<close> as the rounds before it set it.
\<close>

fun fetch_deltas ::
  "('b, 'd, 'o) state_client \<Rightarrow> ('s, 'd, 'o) state_type \<Rightarrow> 'b list \<Rightarrow> ('s, 'b) ClientState
     \<Rightarrow> (error + unit) \<times> ('s, 'b) ClientState \<times> 'b call list" where
  "fetch_deltas cl st [] cs = (Inr (), cs, [])"
| "fetch_deltas cl st (fetch_id # rest) cs =
     (case get_store_delta_for_block cl fetch_id of
        Inl e \<Rightarrow> (Inl e, cs, [GetStoreDelta fetch_id])
      | Inr delta \<Rightarrow>
          (case cs_state cs of
             None \<Rightarrow> (Inl AttributeError, cs, [GetStoreDelta fetch_id])
           | Some s \<Rightarrow>
               (case fetch_deltas cl st rest
                       (cs\<lparr>cs_state := Some (clone_store st s (Some delta))\<rparr>) of
                  (r, cs', calls) \<Rightarrow> (r, cs', GetStoreDelta fetch_id # calls))))"

text \<open>
  \<open>_ClientState.fetch\<close>. The result is what the call returns or raises, the fields
  afterwards, and the calls made on the client.
\<close>

definition fetch ::
  "('b, 'd, 'o) state_client option \<Rightarrow> ('s, 'd, 'o) state_type \<Rightarrow> ('s, 'b) ClientState
     \<Rightarrow> (error + unit) \<times> ('s, 'b) ClientState \<times> 'b call list" where
  "fetch client st cs =
     (case client of
        None \<Rightarrow> (Inl AttributeError, cs, [])
      | Some cl \<Rightarrow>
          (case get_block_list cl 10 of
             Inl e \<Rightarrow> (Inl e, cs, [GetBlockList 10])
           | Inr block_ids \<Rightarrow>
               (case block_ids of
                  [] \<Rightarrow> (Inl IndexError, cs, [GetBlockList 10])
                | block_id # _ \<Rightarrow>
                    if Some block_id = cs_current_block_id cs
                    then (Inr (), cs, [GetBlockList 10])
                    else
                      (let branch =
                         (case cs_current_block_id cs of
                            None \<Rightarrow> None
                          | Some cur \<Rightarrow> if cur \<in> set block_ids then Some cur else None);
                         (r, cs1, calls) =
                           (case branch of
                              Some cur \<Rightarrow>
                                (case list_index block_ids cur of
                                   Inl e \<Rightarrow> (Inl e, cs, [])
                                 | Inr i \<Rightarrow> fetch_deltas cl st (rev (take i block_ids)) cs)
                            | None \<Rightarrow>
                                (case get_store_objects_through_block cl block_id of
                                   Inl e \<Rightarrow> (Inl e, cs, [GetStoreObjects block_id])
                                 | Inr state \<Rightarrow>
                                     (Inr (),
                                      cs\<lparr>cs_state :=
                                           Some (construct st None
                                                   (Some \<lparr>Store = state, DeletedKeys = []\<rparr>))\<rparr>,
                                      [GetStoreObjects block_id])))
                       in case r of
                            Inl e \<Rightarrow> (Inl e, cs1, GetBlockList 10 # calls)
                          | Inr _ \<Rightarrow>
                              (case cs_state cs1 of
                                 None \<Rightarrow> (Inl AttributeError, cs1, GetBlockList 10 # calls)
                               | Some s \<Rightarrow>
                                   (Inr (),
                                    cs1\<lparr>cs_current_state := Some (clone_store st s None),
                                        cs_current_block_id := Some block_id\<rparr>,
                                    GetBlockList 10 # calls))))))"

subsection \<open>Strings\<close>

text \<open>\<open>str(n)\<close> for an integer: its decimal digits, with a minus sign when negative.\<close>

fun str_nat :: "nat \<Rightarrow> string" where
  "str_nat n =
     (if n < 10 then [''0123456789'' ! n]
      else str_nat (n div 10) @ [''0123456789'' ! (n mod 10)])"

declare str_nat.simps [simp del]

definition str_int :: "int \<Rightarrow> string" where
  "str_int i = (if i < 0 then CHR ''-'' # str_nat (nat (- i)) else str_nat (nat i))"

text \<open>\<open>s.rstrip('/')\<close>.\<close>

definition rstrip_slash :: "string \<Rightarrow> string" where
  "rstrip_slash s = rev (dropWhile (\<lambda>ch. ch = CHR ''/'') (rev s))"

text \<open>The truth value of a string or \<open>None\<close>: \<open>None\<close> and the empty string are false.\<close>

definition truthy_str :: "string option \<Rightarrow> bool" where
  "truthy_str x = (case x of None \<Rightarrow> False | Some s \<Rightarrow> s \<noteq> [])"

text \<open>The truth value of a decoded value.\<close>

fun truthy :: "pyval \<Rightarrow> bool" where
  "truthy PNone = False"
| "truthy (PStr s) = (s \<noteq> [])"
| "truthy (PInt i) = (i \<noteq> 0)"
| "truthy (PList xs) = (xs \<noteq> [])"
| "truthy (PDict d) = (d \<noteq> [])"

text \<open>\<open>k in s\<close> for two strings: \<open>k\<close> occurs in \<open>s\<close>.\<close>

fun is_substring :: "string \<Rightarrow> string \<Rightarrow> bool" where
  "is_substring k [] = (k = [])"
| "is_substring k (ch # s) = (take (length k) (ch # s) = k \<or> is_substring k s)"

text \<open>
  \<open>key in value\<close> for a string \<open>key\<close>: a key of a dictionary, an element of a
  list, a substring of a string; on \<open>None\<close> and on an integer a \<open>TypeError\<close>.
\<close>

fun py_contains :: "string \<Rightarrow> pyval \<Rightarrow> error + bool" where
  "py_contains key (PDict d) = Inr (key \<in> set (map fst d))"
| "py_contains key (PList xs) = Inr (PStr key \<in> set xs)"
| "py_contains key (PStr s) = Inr (is_substring key s)"
| "py_contains key PNone = Inl TypeError"
| "py_contains key (PInt i) = Inl TypeError"

text \<open>\<open>value[key]\<close> for a string \<open>key\<close>: only a dictionary can be indexed by it.\<close>

fun py_getitem :: "pyval \<Rightarrow> string \<Rightarrow> error + pyval" where
  "py_getitem (PDict d) key = (case map_of d key of None \<Rightarrow> Inl KeyError | Some v \<Rightarrow> Inr v)"
| "py_getitem v key = Inl TypeError"

subsection \<open>Transaction status\<close>

text \<open>
  The members of the \<open>IntEnum\<close> \<open>TransactionStatus\<close> with their values. The trailing
  comma after \<open>500\<close> makes the class body bind a one-element tuple, which \<open>IntEnum\<close>
  passes to \<open>int\<close> as its arguments: the member's value is \<open>500\<close>.
\<close>

datatype TransactionStatus =
    committed
  | pending
  | not_found
  | internal_server_error
  | server_busy

fun status_value :: "TransactionStatus \<Rightarrow> int" where
  "status_value committed = 200"
| "status_value pending = 302"
| "status_value not_found = 404"
| "status_value internal_server_error = 500"
| "status_value server_busy = 503"





subsection \<open>The transport channel: \<open>_Communication\<close>\<close>

text \<open>
  A request as the code hands it to \<open>urllib2\<close>: the method, the URL, the headers
  given to \<open>Request\<close> or added with \<open>add_header\<close>, the body, and the timeout.
\<close>

datatype http_method = HEAD | GET | POST

record request =
  req_method :: http_method
  req_url :: string
  req_headers :: "(string \<times> pyval) list"
  req_data :: "string option"
  req_timeout :: int

text \<open>
  What opening a request can do: return a response (its code, what its headers give
  for \<open>Content-Type\<close> and for \<open>Set-Cookie\<close>, its content), raise \<open>HTTPError\<close> (its
  code, its \<open>Content-Type\<close>, and what \<open>read()\<close> gives), raise \<open>URLError\<close> with a
  reason, or raise anything else.
\<close>

datatype outcome =
    Response int "string option" "string option" string
  | HTTPError int "string option" "string option"
  | URLError string
  | OtherException

text \<open>
  What the modelled code does that can be observed from outside, in order: the
  requests it opens, each with its outcome, and its calls on the transaction and on
  the message. Logging and \<open>time.sleep\<close> are left out.
\<close>

datatype event =
    Ev_http request outcome
  | Ev_txn_new pyval
  | Ev_txn_sign
  | Ev_check_valid
  | Ev_msg_sign
  | Ev_txn_apply

text \<open>
  The collaborators outside the client. \<open>urlopen n req\<close> is the outcome of opening
  \<open>req\<close> when \<open>n\<close> events have gone before: the validator may answer the same request
  differently at different times. The others are library functions.
\<close>

record env =
  urlopen :: "nat \<Rightarrow> request \<Rightarrow> outcome"
  urljoin :: "string \<Rightarrow> string \<Rightarrow> string"
  json2dict :: "string \<Rightarrow> pyval"
  cbor2dict :: "string \<Rightarrow> pyval"
  dict2cbor :: "pyval \<Rightarrow> string"
  pystr :: "pyval \<Rightarrow> string"

record Communication =
  base_url :: string
  cookie :: "string option"

definition Communication_init :: "string \<Rightarrow> Communication" where
  "Communication_init url = \<lparr>base_url = rstrip_slash url, cookie = None\<rparr>"

text \<open>The request \<open>headrequest\<close> builds: no header, no cookie.\<close>

definition head_request :: "env \<Rightarrow> Communication \<Rightarrow> string \<Rightarrow> request" where
  "head_request env comm path =
     \<lparr>req_method = HEAD, req_url = urljoin env (base_url comm) path, req_headers = [],
      req_data = None, req_timeout = 30\<rparr>"

definition headrequest ::
  "env \<Rightarrow> Communication \<Rightarrow> string \<Rightarrow> event list \<Rightarrow> (error + int) \<times> event list" where
  "headrequest env comm path tr =
     (let req = head_request env comm path;
          out = urlopen env (length tr) req;
          tr' = tr @ [Ev_http req out]
      in case out of
           Response code ctype setcookie content \<Rightarrow> (Inr code, tr')
         | HTTPError code ctype content \<Rightarrow> (Inr code, tr')
         | URLError reason \<Rightarrow> (Inl (MessageException (''operation failed: '' @ reason)), tr')
         | OtherException \<Rightarrow> (Inl (MessageException ''no response from server''), tr'))"

text \<open>The request \<open>getmsg\<close> builds: no header, no cookie.\<close>

definition get_request :: "env \<Rightarrow> Communication \<Rightarrow> string \<Rightarrow> int \<Rightarrow> request" where
  "get_request env comm path timeout =
     \<lparr>req_method = GET, req_url = urljoin env (base_url comm) path, req_headers = [],
      req_data = None, req_timeout = timeout\<rparr>"

definition getmsg ::
  "env \<Rightarrow> Communication \<Rightarrow> string \<Rightarrow> int \<Rightarrow> event list \<Rightarrow> (error + pyval) \<times> event list" where
  "getmsg env comm path timeout tr =
     (let req = get_request env comm path timeout;
          out = urlopen env (length tr) req;
          tr' = tr @ [Ev_http req out]
      in case out of
           HTTPError code ctype content \<Rightarrow>
             (Inl (MessageException (''operation failed with response: '' @ str_int code)), tr')
         | URLError reason \<Rightarrow> (Inl (MessageException (''operation failed: '' @ reason)), tr')
         | OtherException \<Rightarrow> (Inl (MessageException ''no response from server''), tr')
         | Response code encoding setcookie content \<Rightarrow>
             if encoding = Some ''application/json'' then (Inr (json2dict env content), tr')
             else if encoding = Some ''application/cbor'' then (Inr (cbor2dict env content), tr')
             else (Inr (PStr content), tr'))"

text \<open>
  The handler of \<open>HTTPError\<close> in \<open>postmsg\<close>, once the body is decoded to \<open>value\<close>. It
  raises when \<open>value\<close> has an \<open>errorType\<close>. When it has none the handler ends without
  raising, and the statement after the \<open>try\<close> reads \<open>response\<close>, which was never
  bound.
\<close>

definition postmsg_http_error :: "env \<Rightarrow> pyval \<Rightarrow> error" where
  "postmsg_http_error env v =
     (case py_contains ''errorType'' v of
        Inl e \<Rightarrow> e
      | Inr False \<Rightarrow> UnboundLocalError
      | Inr True \<Rightarrow>
          (case py_getitem v ''errorType'' of
             Inl e \<Rightarrow> e
           | Inr et \<Rightarrow>
               if et = PStr ''InvalidTransactionError''
               then (case py_contains ''error'' v of
                       Inl e \<Rightarrow> e
                     | Inr True \<Rightarrow>
                         (case py_getitem v ''error'' of
                            Inl e \<Rightarrow> e
                          | Inr detail \<Rightarrow> InvalidTransactionError detail)
                     | Inr False \<Rightarrow> InvalidTransactionError v)
               else MessageException (pystr env v)))"

text \<open>
  What \<open>postmsg\<close> returns or raises once the request was opened with outcome \<open>out\<close>:
  the \<open>except\<close> clauses of its \<open>try\<close>, and the decoding of the response after it.
\<close>

definition postmsg_answer :: "env \<Rightarrow> outcome \<Rightarrow> error + pyval" where
  "postmsg_answer env out =
     (case out of
        HTTPError code encoding content \<Rightarrow>
          (case content of
             Some body \<Rightarrow>
               if encoding = Some ''application/json''
               then Inl (postmsg_http_error env (json2dict env body))
               else if encoding = Some ''application/cbor''
               then Inl (postmsg_http_error env (cbor2dict env body))
               else Inl (MessageException
                           (''operation failed with response: '' @ str_int code))
           | None \<Rightarrow>
               Inl (MessageException (''operation failed with response: '' @ str_int code)))
      | URLError reason \<Rightarrow> Inl (MessageException (''operation failed: '' @ reason))
      | OtherException \<Rightarrow> Inl (MessageException ''no response from server'')
      | Response code encoding setcookie content \<Rightarrow>
          if encoding = Some ''application/json'' then Inr (json2dict env content)
          else if encoding = Some ''application/cbor'' then Inr (cbor2dict env content)
          else Inr PNone)"

text \<open>
  The request \<open>postmsg\<close> builds: the encoded body with its type and length, and the
  cookie when the channel has one.
\<close>

definition post_request :: "env \<Rightarrow> Communication \<Rightarrow> string \<Rightarrow> pyval \<Rightarrow> request" where
  "post_request env comm msgtype info =
     (let data = dict2cbor env info;
          datalen = int (length data);
          url = urljoin env (base_url comm) msgtype
      in \<lparr>req_method = POST, req_url = url,
          req_headers =
            [(''Content-Type'', PStr ''application/cbor''),
             (''Content-Length'', PInt datalen)]
            @ (case cookie comm of
                 None \<Rightarrow> []
               | Some ck \<Rightarrow> if ck \<noteq> [] then [(''cookie'', PStr ck)] else []),
          req_data = Some data, req_timeout = 10\<rparr>)"

text \<open>
  \<open>postmsg\<close>: a response (not an \<open>HTTPError\<close>) sets the cookie from its \<open>Set-Cookie\<close>
  header when the channel has none yet.
\<close>

definition postmsg ::
  "env \<Rightarrow> Communication \<Rightarrow> string \<Rightarrow> pyval \<Rightarrow> event list
     \<Rightarrow> (error + pyval) \<times> Communication \<times> event list" where
  "postmsg env comm msgtype info tr =
     (let req = post_request env comm msgtype info;
          out = urlopen env (length tr) req;
          tr' = tr @ [Ev_http req out];
          comm' =
            (case out of
               Response code encoding setcookie content \<Rightarrow>
                 if \<not> truthy_str (cookie comm) then comm\<lparr>cookie := setcookie\<rparr> else comm
             | _ \<Rightarrow> comm)
      in (postmsg_answer env out, comm', tr'))"

subsection \<open>The client: \<open>SawtoothClient\<close>\<close>

text \<open>The signing identity \<open>_local_node\<close>, a \<open>gossip.node.Node\<close>.\<close>

record node =
  Identifier :: string
  signingkey :: string
  name :: string

text \<open>
  The transaction class \<open>txn_type\<close> and the message class \<open>txn_msg_type\<close> come from
  the transaction family the client is built for; what \<open>sendtxn\<close> calls on them is a
  parameter. \<open>txn_check_valid\<close> gives the exception \<open>check_valid\<close> raises, if any;
  \<open>txn_apply\<close> gives the store that \<open>apply\<close> leaves, which it changes in place.
\<close>

record ('txn, 's) txn_type =
  txn_new :: "pyval \<Rightarrow> 'txn"
  txn_sign_from_node :: "'txn \<Rightarrow> node \<Rightarrow> 'txn"
  txn_Identifier :: "'txn \<Rightarrow> string"
  txn_check_valid :: "'txn \<Rightarrow> 's option \<Rightarrow> error option"
  txn_apply :: "'txn \<Rightarrow> 's option \<Rightarrow> 's option"

record ('txn, 'msg) msg_type =
  msg_new :: "'msg"
  msg_set_Transaction :: "'msg \<Rightarrow> 'txn \<Rightarrow> 'msg"
  msg_set_SenderID :: "'msg \<Rightarrow> string \<Rightarrow> 'msg"
  msg_sign_from_node :: "'msg \<Rightarrow> node \<Rightarrow> 'msg"
  msg_MessageType :: "'msg \<Rightarrow> string"
  msg_dump :: "'msg \<Rightarrow> pyval"

text \<open>
  The fields of a \<open>SawtoothClient\<close>. \<open>update_batch\<close> is \<open>None\<close> or the dictionary of
  the open batch; \<open>current_state\<close> is \<open>None\<close> or the client's \<open>_ClientState\<close>.
\<close>

record ('txn, 'msg, 's, 'b) client =
  client_base_url :: string
  message_type :: "('txn, 'msg) msg_type option"
  transaction_type :: "('txn, 's) txn_type option"
  store_name :: "string option"
  communication :: Communication
  last_transaction :: "string option"
  local_node :: "node option"
  update_batch :: "(string \<times> pyval) list option"
  disable_client_validation :: bool
  current_state :: "('s, 'b) ClientState option"

definition construct_item_path :: "string \<Rightarrow> string \<Rightarrow> string option \<Rightarrow> string" where
  "construct_item_path item_type item_id field =
     (let path = item_type @ ''/'' @ item_id
      in case field of None \<Rightarrow> path | Some f \<Rightarrow> path @ ''/'' @ f)"

definition construct_transaction_path :: "string \<Rightarrow> string option \<Rightarrow> string" where
  "construct_transaction_path transaction_id field =
     construct_item_path ''transaction'' transaction_id field"

definition start_batch ::
  "('txn, 'msg, 's, 'b) client \<Rightarrow> (error + unit) \<times> ('txn, 'msg, 's, 'b) client" where
  "start_batch c =
     (case update_batch c of
        Some _ \<Rightarrow> (Inl (ClientException ''Update batch already in progress.''), c)
      | None \<Rightarrow>
          (Inr (), c\<lparr>update_batch := Some [(''Updates'', PList []),
                                           (''Dependencies'', PList [])]\<rparr>))"

definition reset_batch :: "('txn, 'msg, 's, 'b) client \<Rightarrow> ('txn, 'msg, 's, 'b) client" where
  "reset_batch c = c\<lparr>update_batch := None\<rparr>"

text \<open>
  The \<open>try\<close> statement of \<open>sendtxn\<close> and what follows it: the post, \<open>None\<close> for a
  \<open>MessageException\<close>, the assertion on the result, the last transaction id, and the
  transaction applied to the speculative store.
\<close>

definition sendtxn_post ::
  "env \<Rightarrow> ('txn, 's) txn_type \<Rightarrow> 'txn \<Rightarrow> string \<Rightarrow> string \<Rightarrow> pyval
     \<Rightarrow> ('txn, 'msg, 's, 'b) client \<Rightarrow> event list
     \<Rightarrow> (error + string option) \<times> ('txn, 'msg, 's, 'b) client \<times> event list" where
  "sendtxn_post env tt txn txnid msgtype info c tr =
     (case postmsg env (communication c) msgtype info tr of
        (posted, comm', tr') \<Rightarrow>
          (let c1 = c\<lparr>communication := comm'\<rparr>
           in case posted of
                Inl (MessageException e) \<Rightarrow> (Inr None, c1, tr')
              | Inl e \<Rightarrow> (Inl e, c1, tr')
              | Inr result \<Rightarrow>
                  if \<not> truthy result then (Inl AssertionError, c1, tr')
                  else
                    (let c2 = c1\<lparr>last_transaction := Some txnid\<rparr>
                     in if \<not> disable_client_validation c2
                        then (case current_state c2 of
                                None \<Rightarrow> (Inl AttributeError, c2, tr')
                              | Some cs \<Rightarrow>
                                  (Inr (Some txnid),
                                   c2\<lparr>current_state :=
                                        Some (cs\<lparr>cs_current_state :=
                                                   txn_apply tt txn (cs_current_state cs)\<rparr>)\<rparr>,
                                   tr' @ [Ev_txn_apply]))
                        else (Inr (Some txnid), c2, tr'))))"

text \<open>
  \<open>sendtxn\<close>. The result is the transaction id, \<open>None\<close>, or the exception raised;
  with it come the client's fields afterwards and the events so far.
\<close>

definition sendtxn ::
  "env \<Rightarrow> ('txn, 's) txn_type option \<Rightarrow> ('txn, 'msg) msg_type option \<Rightarrow> pyval
     \<Rightarrow> ('txn, 'msg, 's, 'b) client \<Rightarrow> event list
     \<Rightarrow> (error + string option) \<times> ('txn, 'msg, 's, 'b) client \<times> event list" where
  "sendtxn env txn_type txn_msg_type minfo c tr =
     (case local_node c of
        None \<Rightarrow>
          (Inl (ClientException ''can not send transactions as a read-only client''), c, tr)
      | Some nd \<Rightarrow>
          (let txn_type' = (case txn_type of Some t \<Rightarrow> Some t | None \<Rightarrow> transaction_type c);
               txn_msg_type' =
                 (case txn_msg_type of Some m \<Rightarrow> Some m | None \<Rightarrow> message_type c)
           in case txn_type' of
                None \<Rightarrow> (Inl TypeError, c, tr)
              | Some tt \<Rightarrow>
                  (let txn = txn_sign_from_node tt (txn_new tt minfo) nd;
                       txnid = txn_Identifier tt txn;
                       tr1 = tr @ [Ev_txn_new minfo, Ev_txn_sign];
                       (invalid, tr2) =
                         (if \<not> disable_client_validation c
                          then (case current_state c of
                                  None \<Rightarrow> (Some AttributeError, tr1)
                                | Some cs \<Rightarrow>
                                    (txn_check_valid tt txn (cs_current_state cs),
                                     tr1 @ [Ev_check_valid]))
                          else (None, tr1))
                   in case invalid of
                        Some e \<Rightarrow> (Inl e, c, tr2)
                      | None \<Rightarrow>
                          (case txn_msg_type' of
                             None \<Rightarrow> (Inl TypeError, c, tr2)
                           | Some mt \<Rightarrow>
                               (let msg = msg_sign_from_node mt
                                            (msg_set_SenderID mt
                                               (msg_set_Transaction mt (msg_new mt) txn)
                                               (Identifier nd))
                                            nd;
                                    tr3 = tr2 @ [Ev_msg_sign]
                                in sendtxn_post env tt txn txnid (msg_MessageType mt msg)
                                     (msg_dump mt msg) c tr3)))))"

text \<open>
  \<open>send_batch\<close>. \<open>len(self._update_batch)\<close> is the number of keys of the batch
  dictionary, and a \<open>TypeError\<close> when there is no batch.
\<close>

definition send_batch ::
  "env \<Rightarrow> ('txn, 'msg, 's, 'b) client \<Rightarrow> event list
     \<Rightarrow> (error + string option) \<times> ('txn, 'msg, 's, 'b) client \<times> event list" where
  "send_batch env c tr =
     (case update_batch c of
        None \<Rightarrow> (Inl TypeError, c, tr)
      | Some batch \<Rightarrow>
          if length batch = 0
          then (Inl (ClientException ''No updates in batch.''), c, tr)
          else (let msg_info = batch;
                    c' = c\<lparr>update_batch := None\<rparr>
                in sendtxn env (transaction_type c') (message_type c') (PDict msg_info) c' tr))"

definition get_transaction_status ::
  "env \<Rightarrow> ('txn, 'msg, 's, 'b) client \<Rightarrow> string \<Rightarrow> event list
     \<Rightarrow> (error + int) \<times> event list" where
  "get_transaction_status env c transaction_id tr =
     headrequest env (communication c) (construct_transaction_path transaction_id None) tr"

text \<open>
  The loop of \<open>wait_for_commit\<close>; \<open>passes\<close> is the counter before the round. The
  status is the integer \<open>headrequest\<close> returns, compared with the member
  \<open>committed\<close> by value.
\<close>

function wait_loop ::
  "env \<Rightarrow> ('txn, 'msg, 's, 'b) client \<Rightarrow> string \<Rightarrow> int \<Rightarrow> int \<Rightarrow> event list
     \<Rightarrow> (error + bool) \<times> event list" where
  "wait_loop env c txnid iterations passes tr =
     (case get_transaction_status env c txnid tr of
        (Inl e, tr') \<Rightarrow> (Inl e, tr')
      | (Inr status, tr') \<Rightarrow>
          if status \<noteq> status_value committed \<and> passes + 1 > iterations
          then (Inr False, tr')
          else if status = status_value committed then (Inr True, tr')
          else wait_loop env c txnid iterations (passes + 1) tr')"
  by pat_completeness auto
termination
  by (relation "measure (\<lambda>(env, c, txnid, iterations, passes, tr). nat (iterations - passes))")
    auto

declare wait_loop.simps [simp del]

text \<open>
  The events after \<open>n\<close> status checks of transaction \<open>t\<close> made one after the other,
  starting from the events \<open>tr\<close>: what \<open>n\<close> calls of \<open>get_transaction_status\<close> leave.
\<close>

primrec status_checks ::
  "env \<Rightarrow> ('txn, 'msg, 's, 'b) client \<Rightarrow> string \<Rightarrow> nat \<Rightarrow> event list \<Rightarrow> event list" where
  "status_checks env c t 0 tr = tr"
| "status_checks env c t (Suc n) tr =
     status_checks env c t n (snd (get_transaction_status env c t tr))"

text \<open>
  \<open>wait_for_commit\<close>. An absent or empty \<open>txnid\<close> stands for the last transaction;
  with no target at all the answer is \<open>True\<close> at once. The parameter \<open>timetowait\<close>
  only sets the length of the sleep between two rounds and is left out.
\<close>

definition wait_for_commit ::
  "env \<Rightarrow> ('txn, 'msg, 's, 'b) client \<Rightarrow> string option \<Rightarrow> int \<Rightarrow> event list
     \<Rightarrow> (error + bool) \<times> event list" where
  "wait_for_commit env c txnid iterations tr =
     (let txnid' = (if \<not> truthy_str txnid then last_transaction c else txnid)
      in case txnid' of
           None \<Rightarrow> (Inr True, tr)
         | Some t \<Rightarrow>
             if \<not> truthy_str (Some t) then (Inr True, tr)
             else wait_loop env c t iterations 0 tr)"

subsection \<open>A store, a ledger, a transaction family and a validator to run the model on\<close>

text \<open>
  Modelled from the spec: the store class \<open>journal.global_store_manager.KeyValueStore\<close>
  is not among the sources. A store is a mapping from object keys to objects, a delta
  is an updated-keys mapping plus the deleted keys, and cloning with a delta gives the
  store with the delta applied. A store built with no previous store starts empty.
\<close>

type_synonym kvstore = "(string \<times> pyval) list"

definition kv_apply :: "kvstore \<Rightarrow> kvstore storeinfo \<Rightarrow> kvstore" where
  "kv_apply s info =
     filter (\<lambda>(k, v). k \<notin> set (DeletedKeys info) \<and> k \<notin> set (map fst (Store info))) s
       @ Store info"

definition KeyValueStore :: "(kvstore, kvstore storeinfo, kvstore) state_type" where
  "KeyValueStore =
     \<lparr>construct = (\<lambda>prevstore info.
         (let base = (case prevstore of None \<Rightarrow> [] | Some p \<Rightarrow> p)
          in case info of None \<Rightarrow> base | Some i \<Rightarrow> kv_apply base i)),
      clone_store = (\<lambda>s delta. case delta of None \<Rightarrow> s | Some d \<Rightarrow> kv_apply s d)\<rparr>"

text \<open>
  A ledger whose ten newest blocks are \<open>B3, B2, B1, B0\<close>; the delta of a block sets
  the key named after the block.
\<close>

definition ex_ledger :: "(string, kvstore storeinfo, kvstore) state_client" where
  "ex_ledger =
     \<lparr>get_block_list = (\<lambda>count. Inr [''B3'', ''B2'', ''B1'', ''B0'']),
      get_store_delta_for_block = (\<lambda>b. Inr \<lparr>Store = [(b, PInt 1)], DeletedKeys = []\<rparr>),
      get_store_objects_through_block = (\<lambda>b. Inr [(''head'', PStr b)])\<rparr>"

text \<open>A transaction is its \<open>minfo\<close> and its signer; applying it records it in the store.\<close>

definition ex_txn_type :: "(pyval \<times> string, kvstore) txn_type" where
  "ex_txn_type =
     \<lparr>txn_new = (\<lambda>minfo. (minfo, [])),
      txn_sign_from_node = (\<lambda>txn nd. (fst txn, Identifier nd)),
      txn_Identifier = (\<lambda>txn. ''txn-by-'' @ snd txn),
      txn_check_valid = (\<lambda>txn store. None),
      txn_apply = (\<lambda>txn store. map_option (\<lambda>s. s @ [(''applied'', fst txn)]) store)\<rparr>"

definition ex_msg_type :: "(pyval \<times> string, (string \<times> pyval) list) msg_type" where
  "ex_msg_type =
     \<lparr>msg_new = [],
      msg_set_Transaction = (\<lambda>msg txn. msg @ [(''Transaction'', fst txn)]),
      msg_set_SenderID = (\<lambda>msg sender. msg @ [(''SenderID'', PStr sender)]),
      msg_sign_from_node = (\<lambda>msg nd. msg @ [(''Signature'', PStr (signingkey nd))]),
      msg_MessageType = (\<lambda>msg. ''example/Transaction''),
      msg_dump = PDict\<rparr>"

text \<open>
  A validator that accepts every post, with a session cookie, answers every status
  check with 302, and every get with an empty JSON body.
\<close>

definition ex_env :: env where
  "ex_env =
     \<lparr>urlopen = (\<lambda>n req.
         case req_method req of
           POST \<Rightarrow> Response 200 (Some ''application/cbor'') (Some ''session=1'') ''accepted''
         | GET \<Rightarrow> Response 200 (Some ''application/json'') None ''[]''
         | HEAD \<Rightarrow> HTTPError 302 None None),
      urljoin = (\<lambda>base path. base @ ''/'' @ path),
      json2dict = (\<lambda>content. PDict [(''body'', PStr content)]),
      cbor2dict = (\<lambda>content. PDict [(''body'', PStr content)]),
      dict2cbor = (\<lambda>v. ''cbor''),
      pystr = (\<lambda>v. ''value'')\<rparr>"

text \<open>The same validator when it cannot be reached.\<close>

definition ex_env_down :: env where
  "ex_env_down = ex_env\<lparr>urlopen := (\<lambda>n req. URLError ''connection refused'')\<rparr>"

text \<open>
  The same validator when it answers every request with an HTTP error 500 whose JSON
  body is the empty object, a body without \<open>errorType\<close>.
\<close>

definition ex_env_error_body :: env where
  "ex_env_error_body =
     ex_env\<lparr>urlopen := (\<lambda>n req. HTTPError 500 (Some ''application/json'') (Some ''{}'')),
            json2dict := (\<lambda>content. PDict [])\<rparr>"

text \<open>
  The same validator when the request opened after two earlier events finds the
  transaction committed.
\<close>

definition ex_env_commits :: env where
  "ex_env_commits =
     ex_env\<lparr>urlopen := (\<lambda>n req. if n = 2 then Response 200 None None [] else HTTPError 302 None None)\<rparr>"

definition ex_client :: "(pyval \<times> string, (string \<times> pyval) list, kvstore, string) client" where
  "ex_client =
     \<lparr>client_base_url = ''http://localhost:8800'',
      message_type = Some ex_msg_type,
      transaction_type = Some ex_txn_type,
      store_name = Some ''Accounts'',
      communication = Communication_init ''http://localhost:8800/'',
      last_transaction = None,
      local_node = Some \<lparr>Identifier = ''node-1'', signingkey = ''key-1'',
                          name = ''SawtoothClient''\<rparr>,
      update_batch = None,
      disable_client_validation = False,
      current_state = Some \<lparr>cs_state = Some [], cs_current_state = Some [],
                             cs_current_block_id = Some ''B1''\<rparr>\<rparr>"

section \<open>Properties\<close>

text \<open>The definitions a concrete run unfolds.\<close>

lemmas ex_defs = ex_env_def ex_env_down_def ex_env_commits_def ex_env_error_body_def
  ex_client_def ex_txn_type_def ex_msg_type_def Communication_init_def rstrip_slash_def

lemmas run_defs = send_batch_def start_batch_def sendtxn_def sendtxn_post_def postmsg_def
  postmsg_answer_def post_request_def truthy_str_def Let_def get_request_def head_request_def
  getmsg_def headrequest_def get_transaction_status_def construct_transaction_path_def
  construct_item_path_def wait_for_commit_def

subsection \<open>Refreshing the snapshot\<close>

lemma list_index_first:
  "cur \<notin> set newer \<Longrightarrow> list_index (newer @ cur # older) cur = Inr (length newer)"
  by (induction newer) auto

lemma fetch_deltas_all_answered:
  "\<forall>b\<in>set bs. get_store_delta_for_block cl b = Inr (delta b) \<Longrightarrow> cs_state cs = Some s \<Longrightarrow>
   fetch_deltas cl st bs cs =
     (Inr (),
      cs\<lparr>cs_state := Some (foldl (\<lambda>acc b. clone_store st acc (Some (delta b))) s bs)\<rparr>,
      map GetStoreDelta bs)"
proof (induction bs arbitrary: cs s)
  case Nil
  then show ?case by simp
next
  case (Cons b bs)
  let ?cs = "cs\<lparr>cs_state := Some (clone_store st s (Some (delta b)))\<rparr>"
  have "fetch_deltas cl st bs ?cs =
     (Inr (),
      ?cs\<lparr>cs_state := Some (foldl (\<lambda>acc b. clone_store st acc (Some (delta b)))
                               (clone_store st s (Some (delta b))) bs)\<rparr>,
      map GetStoreDelta bs)"
    using Cons.prems by (intro Cons.IH) simp_all
  then show ?case using Cons.prems by simp
qed

text \<open>
  A recorded head comes with a synchronized snapshot: \<open>fetch\<close> sets the head only
  after it has set \<open>_state\<close>, and no refresh takes the snapshot away.
\<close>

lemma fetch_deltas_keeps_snapshot:
  "fetch_deltas cl st bs cs = (r, cs', calls) \<Longrightarrow> cs_state cs \<noteq> None \<Longrightarrow>
   cs_state cs' \<noteq> None \<and> cs_current_block_id cs' = cs_current_block_id cs"
proof (induction bs arbitrary: cs r cs' calls)
  case Nil
  then show ?case by simp
next
  case (Cons b bs)
  then show ?case
    by (auto split: sum.splits option.splits prod.splits)
qed

lemma fetch_keeps_snapshot_with_head:
  assumes "fetch client st cs = (r, cs', calls)"
    and "cs_current_block_id cs \<noteq> None \<longrightarrow> cs_state cs \<noteq> None"
  shows "cs_current_block_id cs' \<noteq> None \<longrightarrow> cs_state cs' \<noteq> None"
  using assms unfolding fetch_def
  by (auto simp: Let_def split: option.splits sum.splits list.splits if_splits prod.splits
      dest: fetch_deltas_keeps_snapshot)

text \<open>
  C1. When the recorded head \<open>cur\<close> is in the fetched list but is not its newest id,
  so that the list is \<open>newer @ cur # older\<close> with \<open>newer\<close> the ids strictly newer
  than \<open>cur\<close>, and the delta of each of them is answered, \<open>fetch\<close> asks for the
  deltas of \<open>newer\<close> from the oldest to the newest, the reverse of the order of the
  list, replaces the synchronized snapshot by its clone with each delta in that
  order, and records the newest id of the list as the head.
\<close>

theorem fetch_incremental_oldest_first:
  assumes "get_block_list cl 10 = Inr (newer @ cur # older)"
    and "cur \<notin> set newer" and "newer \<noteq> []"
    and "cs_current_block_id cs = Some cur"
    and "cs_state cs = Some s"
    and "\<forall>b\<in>set newer. get_store_delta_for_block cl b = Inr (delta b)"
  shows "fetch (Some cl) st cs =
     (let s' = foldl (\<lambda>acc b. clone_store st acc (Some (delta b))) s (rev newer)
      in (Inr (),
          cs\<lparr>cs_state := Some s',
             cs_current_state := Some (clone_store st s' None),
             cs_current_block_id := Some (hd newer)\<rparr>,
          GetBlockList 10 # map GetStoreDelta (rev newer)))"
proof -
  obtain n ns where newer: "newer = n # ns"
    using assms(3) by (cases newer) auto
  have ne: "n \<noteq> cur" using assms(2) newer by auto
  have loop: "fetch_deltas cl st (rev newer) cs =
     (Inr (),
      cs\<lparr>cs_state := Some (foldl (\<lambda>acc b. clone_store st acc (Some (delta b))) s (rev newer))\<rparr>,
      map GetStoreDelta (rev newer))"
    using assms(5,6) by (intro fetch_deltas_all_answered) simp_all
  have idx: "list_index (newer @ cur # older) cur = Inr (length newer)"
    using assms(2) by (rule list_index_first)
  show ?thesis
    unfolding fetch_def using assms(1,4) ne idx loop
    by (simp add: newer Let_def)
qed

theorem fetch_incremental_oldest_first_witness:
  "get_block_list ex_ledger 10 = Inr ([''B3'', ''B2'', ''B1''] @ ''B0'' # [])
   \<and> ''B0'' \<notin> set [''B3'', ''B2'', ''B1'']
   \<and> get_store_delta_for_block ex_ledger ''B1''
       = Inr \<lparr>Store = [(''B1'', PInt 1)], DeletedKeys = []\<rparr>
   \<and> fetch (Some ex_ledger) KeyValueStore
        \<lparr>cs_state = Some [], cs_current_state = Some [], cs_current_block_id = Some ''B0''\<rparr>
      = (Inr (),
         \<lparr>cs_state = Some [(''B1'', PInt 1), (''B2'', PInt 1), (''B3'', PInt 1)],
          cs_current_state = Some [(''B1'', PInt 1), (''B2'', PInt 1), (''B3'', PInt 1)],
          cs_current_block_id = Some ''B3''\<rparr>,
         [GetBlockList 10, GetStoreDelta ''B1'', GetStoreDelta ''B2'', GetStoreDelta ''B3''])"
  using fetch_incremental_oldest_first [of ex_ledger "[''B3'', ''B2'', ''B1'']" "''B0''" "[]"
      "\<lparr>cs_state = Some [], cs_current_state = Some [], cs_current_block_id = Some ''B0''\<rparr>"
      "[]" "\<lambda>b. \<lparr>Store = [(b, PInt 1)], DeletedKeys = []\<rparr>" KeyValueStore]
  by (simp add: ex_ledger_def KeyValueStore_def kv_apply_def Let_def)

text \<open>
  C2. When the recorded head is not in the fetched list, which includes the state
  where no head was ever recorded, \<open>fetch\<close> asks for the objects of the store
  through the newest id and builds a new store from them with no previous store: no
  delta is asked for, and the new snapshot does not depend on the one before.
\<close>

theorem fetch_full_when_head_unknown:
  assumes "get_block_list cl 10 = Inr (block_id # older)"
    and "cs_current_block_id cs \<notin> Some ` set (block_id # older)"
    and "get_store_objects_through_block cl block_id = Inr objs"
  shows "fetch (Some cl) st cs =
     (let s' = construct st None (Some \<lparr>Store = objs, DeletedKeys = []\<rparr>)
      in (Inr (),
          cs\<lparr>cs_state := Some s',
             cs_current_state := Some (clone_store st s' None),
             cs_current_block_id := Some block_id\<rparr>,
          [GetBlockList 10, GetStoreObjects block_id]))"
  unfolding fetch_def using assms
  by (auto simp: Let_def split: option.splits)

theorem fetch_full_when_head_unknown_witness:
  "get_block_list ex_ledger 10 = Inr (''B3'' # [''B2'', ''B1'', ''B0''])
   \<and> cs_current_block_id (ClientState_init (Some ex_ledger) KeyValueStore)
        \<notin> Some ` set (''B3'' # [''B2'', ''B1'', ''B0''])
   \<and> get_store_objects_through_block ex_ledger ''B3'' = Inr [(''head'', PStr ''B3'')]
   \<and> fetch (Some ex_ledger) KeyValueStore (ClientState_init (Some ex_ledger) KeyValueStore)
      = (Inr (),
         \<lparr>cs_state = Some [(''head'', PStr ''B3'')],
          cs_current_state = Some [(''head'', PStr ''B3'')],
          cs_current_block_id = Some ''B3''\<rparr>,
         [GetBlockList 10, GetStoreObjects ''B3''])"
  using fetch_full_when_head_unknown [of ex_ledger "''B3''" "[''B2'', ''B1'', ''B0'']"
      "ClientState_init (Some ex_ledger) KeyValueStore" "[(''head'', PStr ''B3'')]" KeyValueStore]
  by (simp add: ex_ledger_def KeyValueStore_def kv_apply_def ClientState_init_def Let_def)

text \<open>
  C3. When the newest id of the fetched list is the recorded head, \<open>fetch\<close> returns
  after the one block-list request: no other call is made, and the synchronized
  snapshot, the speculative snapshot and the recorded head are what they were.
\<close>

theorem fetch_current_is_noop:
  assumes "get_block_list cl 10 = Inr (block_id # older)"
    and "cs_current_block_id cs = Some block_id"
  shows "fetch (Some cl) st cs = (Inr (), cs, [GetBlockList 10])"
  using assms by (simp add: fetch_def)

theorem fetch_current_is_noop_witness:
  "get_block_list ex_ledger 10 = Inr (''B3'' # [''B2'', ''B1'', ''B0''])
   \<and> cs_current_block_id \<lparr>cs_state = Some [], cs_current_state = Some [(''mine'', PInt 7)],
                           cs_current_block_id = Some ''B3''\<rparr> = Some ''B3''
   \<and> fetch (Some ex_ledger) KeyValueStore
        \<lparr>cs_state = Some [], cs_current_state = Some [(''mine'', PInt 7)],
         cs_current_block_id = Some ''B3''\<rparr>
      = (Inr (),
         \<lparr>cs_state = Some [], cs_current_state = Some [(''mine'', PInt 7)],
          cs_current_block_id = Some ''B3''\<rparr>,
         [GetBlockList 10])"
  using fetch_current_is_noop [of ex_ledger "''B3''" "[''B2'', ''B1'', ''B0'']"
      "\<lparr>cs_state = Some [], cs_current_state = Some [(''mine'', PInt 7)],
        cs_current_block_id = Some ''B3''\<rparr>" KeyValueStore]
  by (simp add: ex_ledger_def)

subsection \<open>The batch accumulator\<close>

text \<open>
  C10. With no open batch, \<open>send_batch\<close> raises the \<open>TypeError\<close> of \<open>len(None)\<close>,
  which is not a \<open>ClientException\<close>, before anything is built, signed or posted: the
  client's fields and the events are what they were.
\<close>

theorem send_batch_without_batch:
  assumes "update_batch c = None"
  shows "send_batch env c tr = (Inl TypeError, c, tr)"
  using assms by (simp add: send_batch_def)

theorem send_batch_without_batch_witness:
  "update_batch ex_client = None
   \<and> send_batch ex_env ex_client [] = (Inl TypeError, ex_client, [])"
  using send_batch_without_batch [of ex_client ex_env "[]"]
  by (simp add: ex_client_def)

lemma sendtxn_post_keeps_update_batch:
  "update_batch (fst (snd (sendtxn_post env tt txn txnid msgtype info c tr))) = update_batch c"
  unfolding sendtxn_post_def
  by (simp add: Let_def split: option.split sum.split error.split prod.split)

lemma sendtxn_keeps_update_batch:
  "update_batch (fst (snd (sendtxn env tt mt minfo c tr))) = update_batch c"
  unfolding sendtxn_def
  by (simp add: Let_def sendtxn_post_keeps_update_batch split: option.split prod.split)

text \<open>
  C6. A client has one batch slot. \<open>start_batch\<close> on an occupied slot raises the
  \<open>ClientException\<close> and leaves the client, and so the batch, as it was.
  \<open>send_batch\<close> on a batch dictionary with keys hands it to \<open>sendtxn\<close> with the slot
  already emptied. Whatever \<open>send_batch\<close> returns or raises, the slot is empty
  afterwards, unless \<open>send_batch\<close> itself refused the batch before anything was done: an
  open batch never stands beside an error from the submission.
\<close>

theorem one_open_batch:
  "(update_batch c = Some b \<longrightarrow>
      start_batch c = (Inl (ClientException ''Update batch already in progress.''), c))
   \<and> (update_batch c = Some b \<and> b \<noteq> [] \<longrightarrow>
        send_batch env c tr =
          sendtxn env (transaction_type c) (message_type c) (PDict b)
            (c\<lparr>update_batch := None\<rparr>) tr)
   \<and> (send_batch env c tr = (r, c', tr') \<longrightarrow>
        update_batch c' = None
        \<or> (r = Inl (ClientException ''No updates in batch.'') \<and> c' = c \<and> tr' = tr))"
proof (intro conjI impI)
  assume "update_batch c = Some b"
  then show "start_batch c = (Inl (ClientException ''Update batch already in progress.''), c)"
    by (simp add: start_batch_def)
next
  assume "update_batch c = Some b \<and> b \<noteq> []"
  then show "send_batch env c tr =
      sendtxn env (transaction_type c) (message_type c) (PDict b) (c\<lparr>update_batch := None\<rparr>) tr"
    by (simp add: send_batch_def)
next
  assume run: "send_batch env c tr = (r, c', tr')"
  show "update_batch c' = None
        \<or> (r = Inl (ClientException ''No updates in batch.'') \<and> c' = c \<and> tr' = tr)"
  proof (cases "update_batch c")
    case None
    then show ?thesis using run by (auto simp: send_batch_def)
  next
    case (Some batch)
    show ?thesis
    proof (cases "batch = []")
      case True
      then show ?thesis using run Some by (auto simp: send_batch_def)
    next
      case False
      then have "sendtxn env (transaction_type c) (message_type c) (PDict batch)
                   (c\<lparr>update_batch := None\<rparr>) tr = (r, c', tr')"
        using run Some by (simp add: send_batch_def)
      then have "c' = fst (snd (sendtxn env (transaction_type c) (message_type c) (PDict batch)
                   (c\<lparr>update_batch := None\<rparr>) tr))"
        by simp
      then have "update_batch c' = update_batch (c\<lparr>update_batch := None\<rparr>)"
        by (simp only: sendtxn_keeps_update_batch)
      then show ?thesis by simp
    qed
  qed
qed

theorem one_open_batch_witness:
  "update_batch (snd (start_batch ex_client))
     = Some [(''Updates'', PList []), (''Dependencies'', PList [])]
   \<and> start_batch (snd (start_batch ex_client))
     = (Inl (ClientException ''Update batch already in progress.''), snd (start_batch ex_client))
   \<and> update_batch (fst (snd (send_batch ex_env (snd (start_batch ex_client)) []))) = None"
  using one_open_batch
    [of "snd (start_batch ex_client)" "[(''Updates'', PList []), (''Dependencies'', PList [])]"
        ex_env "[]"
        "fst (send_batch ex_env (snd (start_batch ex_client)) [])"
        "fst (snd (send_batch ex_env (snd (start_batch ex_client)) []))"
        "snd (snd (send_batch ex_env (snd (start_batch ex_client)) []))"]
  by (simp add: ex_defs run_defs)

text \<open>
  C4. A batch that was opened and has no update is not refused: \<open>len\<close> of the batch
  dictionary counts its two keys, so \<open>send_batch\<close> goes on to build, sign and post a
  transaction with an empty update list, and returns its id.
\<close>

theorem send_batch_posts_empty_batch:
  "update_batch (snd (start_batch ex_client))
     = Some [(''Updates'', PList []), (''Dependencies'', PList [])]
   \<and> send_batch ex_env (snd (start_batch ex_client)) []
     = (Inr (Some ''txn-by-node-1''),
        ex_client
          \<lparr>communication := \<lparr>base_url = ''http://localhost:8800'', cookie = Some ''session=1''\<rparr>,
           last_transaction := Some ''txn-by-node-1'',
           current_state :=
             Some \<lparr>cs_state = Some [],
                   cs_current_state =
                     Some [(''applied'',
                            PDict [(''Updates'', PList []), (''Dependencies'', PList [])])],
                   cs_current_block_id = Some ''B1''\<rparr>\<rparr>,
        [Ev_txn_new (PDict [(''Updates'', PList []), (''Dependencies'', PList [])]),
         Ev_txn_sign, Ev_check_valid, Ev_msg_sign,
         Ev_http
           \<lparr>req_method = POST, req_url = ''http://localhost:8800/example/Transaction'',
            req_headers = [(''Content-Type'', PStr ''application/cbor''),
                           (''Content-Length'', PInt 4)],
            req_data = Some ''cbor'', req_timeout = 10\<rparr>
           (Response 200 (Some ''application/cbor'') (Some ''session=1'') ''accepted''),
         Ev_txn_apply])"
  by (simp add: ex_defs run_defs)

subsection \<open>The submission pipeline\<close>

text \<open>What the post stage of a submission does, by the answer to its one request.\<close>

lemma sendtxn_post_result:
  assumes "sendtxn_post env tt txn txnid msgtype info c tr = (r, c', tr')"
    and "req = post_request env (communication c) msgtype info"
    and "out = urlopen env (length tr) req"
  shows "(tr' = tr @ [Ev_http req out] \<or> tr' = tr @ [Ev_http req out, Ev_txn_apply])
    \<and> (\<forall>m. postmsg_answer env out = Inl (MessageException m) \<longrightarrow>
          r = Inr None \<and> current_state c' = current_state c
          \<and> last_transaction c' = last_transaction c)
    \<and> (last_transaction c' \<noteq> last_transaction c \<or> current_state c' \<noteq> current_state c \<longrightarrow>
          (\<exists>result. postmsg_answer env out = Inr result \<and> truthy result))
    \<and> (disable_client_validation c \<longrightarrow> current_state c' = current_state c)"
  using assms unfolding sendtxn_post_def postmsg_def
  by (auto simp: Let_def split: option.splits sum.splits error.splits if_splits)

lemma post_request_method: "req_method (post_request env comm msgtype info) = POST"
  by (simp add: post_request_def Let_def)

text \<open>The two ways a submission can go: it stops before the post, or it reaches it.\<close>

lemma sendtxn_paths:
  assumes "sendtxn env tt mt minfo c tr = (r, c', tr')"
  shows "((\<exists>e. r = Inl e) \<and> c' = c
            \<and> (\<exists>pre. tr' = tr @ pre
                  \<and> set pre \<subseteq> {Ev_txn_new minfo, Ev_txn_sign, Ev_check_valid}))
       \<or> (\<exists>ty txn txnid msgtype info pre.
             sendtxn_post env ty txn txnid msgtype info c (tr @ pre) = (r, c', tr')
             \<and> set pre \<subseteq> {Ev_txn_new minfo, Ev_txn_sign, Ev_check_valid, Ev_msg_sign})"
proof -
  let ?stopped = "(\<exists>e. r = Inl e) \<and> c' = c
            \<and> (\<exists>pre. tr' = tr @ pre
                  \<and> set pre \<subseteq> {Ev_txn_new minfo, Ev_txn_sign, Ev_check_valid})"
  let ?posted = "\<lambda>pre. \<exists>ty txn txnid msgtype info.
             sendtxn_post env ty txn txnid msgtype info c (tr @ pre) = (r, c', tr')"
  have "?stopped
        \<or> ?posted [Ev_txn_new minfo, Ev_txn_sign, Ev_msg_sign]
        \<or> ?posted [Ev_txn_new minfo, Ev_txn_sign, Ev_check_valid, Ev_msg_sign]"
  proof (cases "local_node c")
    case None
    then show ?thesis using assms by (auto simp: sendtxn_def)
  next
    case nd: (Some nd)
    show ?thesis
    proof (cases "case tt of Some t \<Rightarrow> Some t | None \<Rightarrow> transaction_type c")
      case None
      then show ?thesis using assms nd by (auto simp: sendtxn_def)
    next
      case ty: (Some ty)
      show ?thesis
      proof (cases "case mt of Some m \<Rightarrow> Some m | None \<Rightarrow> message_type c")
        case None
        then show ?thesis using assms nd ty
          by (auto simp: sendtxn_def Let_def split: option.splits if_splits)
      next
        case m: (Some m)
        show ?thesis
        proof (cases "disable_client_validation c")
          case True
          then have "?posted [Ev_txn_new minfo, Ev_txn_sign, Ev_msg_sign]"
            using assms nd ty m by (simp add: sendtxn_def Let_def) blast
          then show ?thesis by blast
        next
          case False
          show ?thesis
          proof (cases "current_state c")
            case None
            then show ?thesis using assms nd ty m False
              by (auto simp: sendtxn_def Let_def)
          next
            case (Some cs)
            show ?thesis
            proof (cases "txn_check_valid ty (txn_sign_from_node ty (txn_new ty minfo) nd)
                            (cs_current_state cs)")
              case None
              then have "?posted [Ev_txn_new minfo, Ev_txn_sign, Ev_check_valid, Ev_msg_sign]"
                using assms nd ty m False Some by (simp add: sendtxn_def Let_def) blast
              then show ?thesis by blast
            next
              case invalid: (Some e)
              then show ?thesis using assms nd ty m False Some
                by (auto simp: sendtxn_def Let_def)
            qed
          qed
        qed
      qed
    qed
  qed
  then show ?thesis
  proof (elim disjE)
    assume ?stopped
    then show ?thesis by (rule disjI1)
  next
    assume "?posted [Ev_txn_new minfo, Ev_txn_sign, Ev_msg_sign]"
    then have "\<exists>pre. ?posted pre
                 \<and> set pre \<subseteq> {Ev_txn_new minfo, Ev_txn_sign, Ev_check_valid, Ev_msg_sign}"
      by (intro exI [where x = "[Ev_txn_new minfo, Ev_txn_sign, Ev_msg_sign]"]) simp
    then show ?thesis by blast
  next
    assume "?posted [Ev_txn_new minfo, Ev_txn_sign, Ev_check_valid, Ev_msg_sign]"
    then have "\<exists>pre. ?posted pre
                 \<and> set pre \<subseteq> {Ev_txn_new minfo, Ev_txn_sign, Ev_check_valid, Ev_msg_sign}"
      by (intro exI [where x = "[Ev_txn_new minfo, Ev_txn_sign, Ev_check_valid, Ev_msg_sign]"])
         simp
    then show ?thesis by blast
  qed
qed

text \<open>
  An \<open>HTTPError\<close> whose decoded body has no \<open>errorType\<close> leaves the handler of
  \<open>postmsg\<close> without a raise; the statement after the \<open>try\<close> then fails on the unbound
  \<open>response\<close>. That is no \<open>MessageException\<close>, so \<open>sendtxn\<close> lets it through.
\<close>

lemma postmsg_answer_error_without_type:
  "py_contains ''errorType'' (json2dict env body) = Inr False \<Longrightarrow>
   postmsg_answer env (HTTPError code (Some ''application/json'') (Some body))
     = Inl UnboundLocalError"
  by (simp add: postmsg_answer_def postmsg_http_error_def)

text \<open>
  What \<open>sendtxn\<close> does by the answer of \<open>postmsg\<close> to the one request a submission
  opens. When that answer is a \<open>MessageException\<close>, \<open>sendtxn\<close> returns \<open>None\<close>, and
  the client's state, with its speculative snapshot, and the last transaction id are
  what they were. They change only when the post returned a true result, and the state
  does not change at all when client validation is disabled.
\<close>

theorem sendtxn_post_failure_keeps_state:
  assumes "sendtxn env tt mt minfo c tr = (r, c', tr')"
  shows "(Ev_http req out \<in> set (drop (length tr) tr')
            \<and> postmsg_answer env out = Inl (MessageException m)
          \<longrightarrow> r = Inr None \<and> current_state c' = current_state c
              \<and> last_transaction c' = last_transaction c)
       \<and> (last_transaction c' \<noteq> last_transaction c \<or> current_state c' \<noteq> current_state c
          \<longrightarrow> (\<exists>rq ok result.
                 Ev_http rq ok \<in> set (drop (length tr) tr') \<and> req_method rq = POST
                 \<and> postmsg_answer env ok = Inr result \<and> truthy result))
       \<and> (disable_client_validation c \<longrightarrow> current_state c' = current_state c)"
proof -
  from sendtxn_paths [OF assms] show ?thesis
  proof
    assume "(\<exists>e. r = Inl e) \<and> c' = c
            \<and> (\<exists>pre. tr' = tr @ pre
                  \<and> set pre \<subseteq> {Ev_txn_new minfo, Ev_txn_sign, Ev_check_valid})"
    then show ?thesis by auto
  next
    assume "\<exists>ty txn txnid msgtype info pre.
             sendtxn_post env ty txn txnid msgtype info c (tr @ pre) = (r, c', tr')
             \<and> set pre \<subseteq> {Ev_txn_new minfo, Ev_txn_sign, Ev_check_valid, Ev_msg_sign}"
    then obtain ty txn txnid msgtype info pre where
      post: "sendtxn_post env ty txn txnid msgtype info c (tr @ pre) = (r, c', tr')"
      and pre: "set pre \<subseteq> {Ev_txn_new minfo, Ev_txn_sign, Ev_check_valid, Ev_msg_sign}"
      by blast
    define rq where "rq = post_request env (communication c) msgtype info"
    define ok where "ok = urlopen env (length (tr @ pre)) rq"
    note res = sendtxn_post_result [OF post rq_def ok_def]
    have new: "drop (length tr) tr' = pre @ [Ev_http rq ok]
               \<or> drop (length tr) tr' = pre @ [Ev_http rq ok, Ev_txn_apply]"
      using res by auto
    have only: "Ev_http req out \<in> set (drop (length tr) tr') \<Longrightarrow> out = ok"
      using new pre by auto
    have posted: "Ev_http rq ok \<in> set (drop (length tr) tr')"
      using new by auto
    have is_post: "req_method rq = POST"
      by (simp add: rq_def post_request_method)
    show ?thesis
    proof (intro conjI impI)
      assume "Ev_http req out \<in> set (drop (length tr) tr')
              \<and> postmsg_answer env out = Inl (MessageException m)"
      then have "postmsg_answer env ok = Inl (MessageException m)"
        using only by blast
      then show "r = Inr None" and "current_state c' = current_state c"
        and "last_transaction c' = last_transaction c"
        using res by blast+
    next
      assume "last_transaction c' \<noteq> last_transaction c \<or> current_state c' \<noteq> current_state c"
      then have "\<exists>result. postmsg_answer env ok = Inr result \<and> truthy result"
        using res by blast
      then show "\<exists>rq ok result.
                 Ev_http rq ok \<in> set (drop (length tr) tr') \<and> req_method rq = POST
                 \<and> postmsg_answer env ok = Inr result \<and> truthy result"
        using posted is_post by blast
    next
      assume "disable_client_validation c"
      then show "current_state c' = current_state c"
        using res by blast
    qed
  qed
qed

theorem sendtxn_post_failure_keeps_state_witness:
  "postmsg_answer ex_env_down (URLError ''connection refused'')
     = Inl (MessageException ''operation failed: connection refused'')
   \<and> sendtxn ex_env_down None None (PDict [(''Updates'', PList [PStr ''u1''])]) ex_client []
     = (Inr None, ex_client,
        [Ev_txn_new (PDict [(''Updates'', PList [PStr ''u1''])]), Ev_txn_sign, Ev_check_valid,
         Ev_msg_sign,
         Ev_http
           (post_request ex_env_down (communication ex_client) ''example/Transaction''
              (PDict [(''Transaction'', PDict [(''Updates'', PList [PStr ''u1''])]),
                      (''SenderID'', PStr ''node-1''), (''Signature'', PStr ''key-1'')]))
           (URLError ''connection refused'')])
   \<and> current_state
        (fst (snd (sendtxn ex_env_down None None (PDict [(''Updates'', PList [PStr ''u1''])])
                     ex_client [])))
     = current_state ex_client
   \<and> last_transaction
        (fst (snd (sendtxn ex_env_down None None (PDict [(''Updates'', PList [PStr ''u1''])])
                     ex_client [])))
     = last_transaction ex_client"
  using sendtxn_post_failure_keeps_state
    [of ex_env_down None None "PDict [(''Updates'', PList [PStr ''u1''])]" ex_client "[]"
        "Inr None" ex_client
        "[Ev_txn_new (PDict [(''Updates'', PList [PStr ''u1''])]), Ev_txn_sign, Ev_check_valid,
          Ev_msg_sign,
          Ev_http
            (post_request ex_env_down (communication ex_client) ''example/Transaction''
               (PDict [(''Transaction'', PDict [(''Updates'', PList [PStr ''u1''])]),
                       (''SenderID'', PStr ''node-1''), (''Signature'', PStr ''key-1'')]))
            (URLError ''connection refused'')]"
        "post_request ex_env_down (communication ex_client) ''example/Transaction''
               (PDict [(''Transaction'', PDict [(''Updates'', PList [PStr ''u1''])]),
                       (''SenderID'', PStr ''node-1''), (''Signature'', PStr ''key-1'')])"
        "URLError ''connection refused''" "''operation failed: connection refused''"]
  by (simp add: ex_defs run_defs)

text \<open>
  C5. A failed post does not always come back as \<open>None\<close>. When the validator answers
  the post with an HTTP error whose JSON body has no \<open>errorType\<close>, \<open>postmsg\<close> raises no
  \<open>MessageException\<close>: its handler ends without a raise and the read of the unbound
  \<open>response\<close> fails. \<open>sendtxn\<close> catches \<open>MessageException\<close> only, so the
  \<open>UnboundLocalError\<close> reaches the caller. The speculative snapshot and the last
  transaction id are left as they were.
\<close>

theorem sendtxn_error_body_without_type_propagates:
  "postmsg_answer ex_env_error_body (HTTPError 500 (Some ''application/json'') (Some ''{}''))
     = Inl UnboundLocalError
   \<and> sendtxn ex_env_error_body None None (PDict [(''Updates'', PList [PStr ''u1''])])
       ex_client []
     = (Inl UnboundLocalError, ex_client,
        [Ev_txn_new (PDict [(''Updates'', PList [PStr ''u1''])]), Ev_txn_sign, Ev_check_valid,
         Ev_msg_sign,
         Ev_http
           \<lparr>req_method = POST, req_url = ''http://localhost:8800/example/Transaction'',
            req_headers = [(''Content-Type'', PStr ''application/cbor''),
                           (''Content-Length'', PInt 4)],
            req_data = Some ''cbor'', req_timeout = 10\<rparr>
           (HTTPError 500 (Some ''application/json'') (Some ''{}''))])
   \<and> fst (sendtxn ex_env_error_body None None (PDict [(''Updates'', PList [PStr ''u1''])])
            ex_client [])
     \<noteq> Inr None"
  by (simp add: ex_defs run_defs postmsg_http_error_def)

subsection \<open>Commit confirmation\<close>

lemma wait_loop_never_committed:
  assumes "\<forall>tr0. \<exists>code. fst (get_transaction_status env c t tr0) = Inr code
                      \<and> code \<noteq> status_value committed"
  shows "n = nat (iterations - passes) \<Longrightarrow>
         wait_loop env c t iterations passes tr =
           (Inr False, status_checks env c t (Suc n) tr)"
proof (induction n arbitrary: passes tr)
  case 0
  obtain code where code: "fst (get_transaction_status env c t tr) = Inr code"
    "code \<noteq> status_value committed"
    using assms by blast
  have "passes + 1 > iterations" using 0 by simp
  then show ?case using code
    by (subst wait_loop.simps) (simp add: split_beta)
next
  case (Suc n)
  obtain code where code: "fst (get_transaction_status env c t tr) = Inr code"
    "code \<noteq> status_value committed"
    using assms by blast
  have le: "\<not> passes + 1 > iterations" using Suc.prems by simp
  have "n = nat (iterations - (passes + 1))" using Suc.prems by simp
  then have "wait_loop env c t iterations (passes + 1) (snd (get_transaction_status env c t tr)) =
     (Inr False, status_checks env c t (Suc n) (snd (get_transaction_status env c t tr)))"
    by (rule Suc.IH)
  then show ?case using code le
    by (subst wait_loop.simps) (simp add: split_beta)
qed

lemma wait_loop_committed:
  "\<forall>j<k. \<exists>code. fst (get_transaction_status env c t (status_checks env c t j tr)) = Inr code
                 \<and> code \<noteq> status_value committed \<Longrightarrow>
   fst (get_transaction_status env c t (status_checks env c t k tr))
     = Inr (status_value committed) \<Longrightarrow>
   k = 0 \<or> passes + int k \<le> iterations \<Longrightarrow>
   wait_loop env c t iterations passes tr = (Inr True, status_checks env c t (Suc k) tr)"
proof (induction k arbitrary: passes tr)
  case 0
  then show ?case
    by (subst wait_loop.simps) (simp add: split_beta)
next
  case (Suc k)
  let ?tr = "snd (get_transaction_status env c t tr)"
  have "\<exists>code. fst (get_transaction_status env c t (status_checks env c t 0 tr)) = Inr code
                 \<and> code \<noteq> status_value committed"
    using Suc.prems(1) by blast
  then obtain code where code: "fst (get_transaction_status env c t tr) = Inr code"
    "code \<noteq> status_value committed"
    by auto
  have le: "\<not> passes + 1 > iterations" using Suc.prems(3) by simp
  have "wait_loop env c t iterations (passes + 1) ?tr =
          (Inr True, status_checks env c t (Suc k) ?tr)"
  proof (rule Suc.IH)
    show "\<forall>j<k. \<exists>code. fst (get_transaction_status env c t (status_checks env c t j ?tr))
                         = Inr code \<and> code \<noteq> status_value committed"
    proof (intro allI impI)
      fix j assume "j < k"
      then have "Suc j < Suc k" by simp
      with Suc.prems(1) have "\<exists>code. fst (get_transaction_status env c t
                                           (status_checks env c t (Suc j) tr))
                                 = Inr code \<and> code \<noteq> status_value committed"
        by blast
      then show "\<exists>code. fst (get_transaction_status env c t (status_checks env c t j ?tr))
                         = Inr code \<and> code \<noteq> status_value committed"
        by simp
    qed
    show "fst (get_transaction_status env c t (status_checks env c t k ?tr))
            = Inr (status_value committed)"
      using Suc.prems(2) by simp
    show "k = 0 \<or> passes + 1 + int k \<le> iterations"
      using Suc.prems(3) by simp
  qed
  then show ?case using code le
    by (subst wait_loop.simps) (simp add: split_beta)
qed

lemma status_check_logs_one_request:
  "snd (get_transaction_status env c t tr) =
     tr @ [Ev_http (head_request env (communication c) (''transaction/'' @ t))
             (urlopen env (length tr)
                (head_request env (communication c) (''transaction/'' @ t)))]"
  by (simp add: get_transaction_status_def headrequest_def construct_transaction_path_def
      construct_item_path_def Let_def split: outcome.split)

lemma status_checks_length:
  "length (status_checks env c t n tr) = length tr + n"
  by (induction n arbitrary: tr) (simp_all add: status_check_logs_one_request)

text \<open>
  C7, as the code has it. With a target transaction and \<open>iterations = N\<close>: against a
  validator that answers every status check with a code other than 200,
  \<open>wait_for_commit\<close> makes exactly \<open>N + 1\<close> status checks (one when \<open>N\<close> is negative)
  and returns \<open>False\<close>; and when the check after \<open>k\<close> uncommitted ones reports 200,
  where \<open>k\<close> is 0 or at most \<open>N\<close>, it returns \<open>True\<close> with that check the last one
  made.
\<close>

theorem wait_for_commit_checks:
  assumes "(if \<not> truthy_str txnid then last_transaction c else txnid) = Some t"
    and "t \<noteq> []"
  shows "((\<forall>tr0. \<exists>code. fst (get_transaction_status env c t tr0) = Inr code
                      \<and> code \<noteq> status_value committed) \<longrightarrow>
            wait_for_commit env c txnid iterations tr =
              (Inr False, status_checks env c t (nat iterations + 1) tr)
            \<and> length (snd (wait_for_commit env c txnid iterations tr))
                = length tr + (nat iterations + 1))
       \<and> ((\<forall>j<k. \<exists>code. fst (get_transaction_status env c t (status_checks env c t j tr))
                          = Inr code \<and> code \<noteq> status_value committed)
           \<and> fst (get_transaction_status env c t (status_checks env c t k tr))
               = Inr (status_value committed)
           \<and> int k \<le> max iterations 0 \<longrightarrow>
            wait_for_commit env c txnid iterations tr =
              (Inr True, status_checks env c t (k + 1) tr)
            \<and> length (snd (wait_for_commit env c txnid iterations tr)) = length tr + (k + 1))"
proof -
  have start: "wait_for_commit env c txnid iterations tr = wait_loop env c t iterations 0 tr"
    using assms by (simp add: wait_for_commit_def Let_def truthy_str_def)
  show ?thesis
  proof (intro conjI impI)
    assume never: "\<forall>tr0. \<exists>code. fst (get_transaction_status env c t tr0) = Inr code
                      \<and> code \<noteq> status_value committed"
    have "wait_loop env c t iterations 0 tr =
            (Inr False, status_checks env c t (Suc (nat (iterations - 0))) tr)"
      using never by (rule wait_loop_never_committed) simp
    then show run: "wait_for_commit env c txnid iterations tr =
              (Inr False, status_checks env c t (nat iterations + 1) tr)"
      using start by simp
    show "length (snd (wait_for_commit env c txnid iterations tr))
                = length tr + (nat iterations + 1)"
      unfolding run by (simp only: snd_conv status_checks_length)
  next
    assume seen: "(\<forall>j<k. \<exists>code. fst (get_transaction_status env c t (status_checks env c t j tr))
                          = Inr code \<and> code \<noteq> status_value committed)
           \<and> fst (get_transaction_status env c t (status_checks env c t k tr))
               = Inr (status_value committed)
           \<and> int k \<le> max iterations 0"
    then have "k = 0 \<or> 0 + int k \<le> iterations" by auto
    with seen have "wait_loop env c t iterations 0 tr =
            (Inr True, status_checks env c t (Suc k) tr)"
      by (intro wait_loop_committed) blast+
    then show run: "wait_for_commit env c txnid iterations tr =
              (Inr True, status_checks env c t (k + 1) tr)"
      using start by simp
    show "length (snd (wait_for_commit env c txnid iterations tr)) = length tr + (k + 1)"
      unfolding run by (simp only: snd_conv status_checks_length)
  qed
qed

theorem wait_for_commit_checks_witness:
  "wait_for_commit ex_env ex_client (Some ''tx1'') 3 []
     = (Inr False, status_checks ex_env ex_client ''tx1'' 4 [])
   \<and> length (snd (wait_for_commit ex_env ex_client (Some ''tx1'') 3 [])) = 4
   \<and> wait_for_commit ex_env_commits ex_client (Some ''tx1'') 3 []
     = (Inr True, status_checks ex_env_commits ex_client ''tx1'' 3 [])
   \<and> length (snd (wait_for_commit ex_env_commits ex_client (Some ''tx1'') 3 [])) = 3"
proof -
  have target: "(if \<not> truthy_str (Some ''tx1'') then last_transaction ex_client else Some ''tx1'')
                  = Some ''tx1''"
    by (simp add: truthy_str_def)
  have never: "\<forall>tr0. \<exists>code. fst (get_transaction_status ex_env ex_client ''tx1'' tr0) = Inr code
                 \<and> code \<noteq> status_value committed"
    by (simp add: ex_defs run_defs)
  have seen: "(\<forall>j<2. \<exists>code.
                 fst (get_transaction_status ex_env_commits ex_client ''tx1''
                        (status_checks ex_env_commits ex_client ''tx1'' j [])) = Inr code
                 \<and> code \<noteq> status_value committed)
              \<and> fst (get_transaction_status ex_env_commits ex_client ''tx1''
                       (status_checks ex_env_commits ex_client ''tx1'' 2 []))
                  = Inr (status_value committed)
              \<and> int 2 \<le> max 3 0"
    by (simp add: ex_defs run_defs status_check_logs_one_request status_checks_length
        eval_nat_numeral)
  show ?thesis
    using wait_for_commit_checks [of "Some ''tx1''" ex_client "''tx1''" ex_env 3 "[]" 0]
      wait_for_commit_checks [of "Some ''tx1''" ex_client "''tx1''" ex_env_commits 3 "[]" 2]
      target never seen
    by (simp add: status_checks_length)
qed

text \<open>
  C7 as stated allows at most \<open>N\<close> status checks. With \<open>N = 3\<close> and a validator that
  always answers 302 there are four.
\<close>

theorem wait_for_commit_checks_counterexample:
  "fst (wait_for_commit ex_env ex_client (Some ''tx1'') 3 []) = Inr False
   \<and> length (snd (wait_for_commit ex_env ex_client (Some ''tx1'') 3 [])) = 4
   \<and> \<not> length (snd (wait_for_commit ex_env ex_client (Some ''tx1'') 3 [])) \<le> 3"
  by (simp add: ex_defs run_defs wait_loop.simps)



subsection \<open>The session cookie\<close>




end
